theory Spec2Isabelle
  imports Main
begin

section \<open>REST request handlers (src/rest.ts)\<close>

text \<open>
  A shallow embedding of \<^verbatim>\<open>src/rest.ts\<close>: the factory \<^verbatim>\<open>createRestHandler\<close>, the
  handler object it returns (\<^verbatim>\<open>parse\<close>, \<^verbatim>\<open>predicate\<close>, \<^verbatim>\<open>getPublicRequest\<close>,
  \<^verbatim>\<open>resolver\<close>, \<^verbatim>\<open>defineContext\<close>, \<^verbatim>\<open>log\<close>), the shared \<^verbatim>\<open>restContext\<close> and the six
  entries of \<^verbatim>\<open>rest\<close>.

  The file imports its collaborators (\<^verbatim>\<open>resolveMask\<close>, \<^verbatim>\<open>matchRequestUrl\<close>,
  \<^verbatim>\<open>isStringEqual\<close>, \<^verbatim>\<open>format\<close>, the logger helpers); they are parameters of the
  model, collected in one record. The console is the list of the calls made on it,
  oldest first, and every operation that may write to it takes it and returns it.
\<close>

subsection \<open>Strings\<close>

text \<open>\<^verbatim>\<open>String.prototype.startsWith\<close>: \<open>startsWith s p\<close> is \<^verbatim>\<open>s.startsWith(p)\<close>.\<close>

fun startsWith :: "string \<Rightarrow> string \<Rightarrow> bool" where
  "startsWith s [] = True"
| "startsWith [] (p # ps) = False"
| "startsWith (x # xs) (p # ps) = (x = p \<and> startsWith xs ps)"

text \<open>\<^verbatim>\<open>Array.prototype.join\<close>: \<open>join sep xs\<close> is \<^verbatim>\<open>xs.join(sep)\<close>.\<close>

fun join :: "string \<Rightarrow> string list \<Rightarrow> string" where
  "join sep [] = []"
| "join sep [x] = x"
| "join sep (x # y # ys) = x @ sep @ join sep (y # ys)"

text \<open>\<^verbatim>\<open>String.prototype.toLowerCase\<close> on the ASCII letters.\<close>

definition toLowerCase_char :: "char \<Rightarrow> char" where
  "toLowerCase_char c =
     (case map_of (zip ''ABCDEFGHIJKLMNOPQRSTUVWXYZ'' ''abcdefghijklmnopqrstuvwxyz'') c of
        None \<Rightarrow> c
      | Some l \<Rightarrow> l)"

definition toLowerCase :: "string \<Rightarrow> string" where
  "toLowerCase s = map toLowerCase_char s"

definition newline :: string where
  "newline = [CHR 0x0A]"

definition dquote :: string where
  "dquote = [CHR 0x22]"

subsection \<open>Data model\<close>

text \<open>\<^verbatim>\<open>enum RESTMethods\<close> and the string value of each member.\<close>

datatype RESTMethods = GET | POST | PUT | PATCH | OPTIONS | DELETE

fun method_string :: "RESTMethods \<Rightarrow> string" where
  "method_string GET = ''GET''"
| "method_string POST = ''POST''"
| "method_string PUT = ''PUT''"
| "method_string PATCH = ''PATCH''"
| "method_string OPTIONS = ''OPTIONS''"
| "method_string DELETE = ''DELETE''"

text \<open>
  The properties of a \<^verbatim>\<open>URL\<close> object that the file reads. \<open>searchParams\<close> is the
  list of (name, value) pairs in the order \<^verbatim>\<open>URLSearchParams.forEach\<close> visits them.
\<close>

record url =
  href :: string
  origin :: string
  protocol :: string
  host :: string
  pathname :: string
  search :: string
  searchParams :: "(string \<times> string) list"

text \<open>A regular expression, by its source and flags.\<close>

datatype regexp = RegExp (source: string) (flags: string)

text \<open>
  Modelled from the spec: the type \<^verbatim>\<open>Mask\<close> is declared in \<^verbatim>\<open>./setupWorker/glossary\<close>,
  outside this file. By section 3 of the specification a mask, before or after
  \<^verbatim>\<open>resolveMask\<close>, is a string, a regular expression or a \<^verbatim>\<open>URL\<close>. \<open>MaskURL\<close> is the
  case \<^verbatim>\<open>instanceof URL\<close>.
\<close>

datatype Mask = MaskString string | MaskRegExp regexp | MaskURL url

text \<open>JavaScript truthiness of a mask: of the three shapes only the empty string is falsy.\<close>

fun mask_truthy :: "Mask \<Rightarrow> bool" where
  "mask_truthy (MaskString s) = (s \<noteq> [])"
| "mask_truthy (MaskRegExp r) = True"
| "mask_truthy (MaskURL u) = True"

text \<open>String conversion of a mask, as the template literal \<^verbatim>\<open>${mask}\<close> performs it.\<close>

fun mask_toString :: "Mask \<Rightarrow> string" where
  "mask_toString (MaskString s) = s"
| "mask_toString (MaskRegExp r) = ''/'' @ source r @ ''/'' @ flags r"
| "mask_toString (MaskURL u) = href u"

text \<open>
  Modelled from the spec: the result type of \<^verbatim>\<open>matchRequestUrl\<close> is declared in
  \<^verbatim>\<open>./utils/matching/matchRequest\<close>, outside this file. By sections 3 and 6 of the
  specification it holds a \<open>matches\<close> flag and, when matched, \<open>params\<close>, a mapping from
  path-parameter names to extracted values. The matcher may also leave \<open>params\<close>
  \<^verbatim>\<open>null\<close> or \<^verbatim>\<open>undefined\<close>, the value that line 75 of the source guards against:
  that is \<open>None\<close>.
\<close>

record match_result =
  matches :: bool
  params :: "(string \<rightharpoonup> string) option"

text \<open>
  The values that the operands of line 75, \<^verbatim>\<open>(mask && parsedRequest.match.params) || {}\<close>,
  can take: a mask, \<^verbatim>\<open>null\<close> or \<^verbatim>\<open>undefined\<close>, or an object that maps names to strings.
  An object is truthy, with or without properties; \<^verbatim>\<open>null\<close> and \<^verbatim>\<open>undefined\<close> are
  falsy. \<^verbatim>\<open>a && b\<close> is \<open>b\<close> when \<open>a\<close> is truthy and \<open>a\<close> otherwise; \<^verbatim>\<open>a || b\<close> is \<open>a\<close>
  when \<open>a\<close> is truthy and \<open>b\<close> otherwise.
\<close>

datatype js_value = JsMask Mask | JsNullish | is_JsObject: JsObject "string \<rightharpoonup> string"

fun truthy :: "js_value \<Rightarrow> bool" where
  "truthy (JsMask k) = mask_truthy k"
| "truthy JsNullish = False"
| "truthy (JsObject obj) = True"

definition js_and :: "js_value \<Rightarrow> js_value \<Rightarrow> js_value" where
  "js_and a b = (if truthy a then b else a)"

definition js_or :: "js_value \<Rightarrow> js_value \<Rightarrow> js_value" where
  "js_or a b = (if truthy a then a else b)"

text \<open>The value of the property \<^verbatim>\<open>params\<close> of a match result.\<close>

fun params_value :: "(string \<rightharpoonup> string) option \<Rightarrow> js_value" where
  "params_value None = JsNullish"
| "params_value (Some obj) = JsObject obj"

text \<open>\<^verbatim>\<open>interface ParsedRestRequest\<close>.\<close>

record ParsedRestRequest =
  match :: match_result

text \<open>
  Modelled from the spec: \<^verbatim>\<open>MockedRequest\<close> is declared in \<^verbatim>\<open>./handlers/requestHandler\<close>,
  outside this file. The record has the fields the file reads (\<^verbatim>\<open>url\<close>, \<^verbatim>\<open>method\<close>, here
  \<open>req_method\<close>, and \<^verbatim>\<open>referrer\<close>) and the headers and body that section 3 of the
  specification gives a request besides.
\<close>

record MockedRequest =
  url :: url
  req_method :: string
  referrer :: string
  headers :: "(string \<times> string) list"
  body :: string

text \<open>The request the resolver sees: every field of the request, and \<open>publicParams\<close>,
  the property \<^verbatim>\<open>params\<close> of the object literal, which holds the value that line 75
  computes.\<close>

record PublicRequest = MockedRequest +
  publicParams :: js_value

text \<open>
  Modelled from the spec: the type of the mocked response is declared outside this
  file. The file reads its \<open>status\<close>; section 3 of the specification gives it
  headers and a body besides.
\<close>

record MockedResponse =
  status :: int
  responseHeaders :: "(string \<times> string) list"
  responseBody :: string

subsection \<open>The context toolkit\<close>

text \<open>
  The nine functions imported from \<^verbatim>\<open>./context/*\<close> are defined outside this file:
  each is named by a constructor. \<^verbatim>\<open>restContext\<close> is the object literal that lists them
  under their own names, in the order of the source.
\<close>

datatype context_function =
  ctx_set | ctx_status | ctx_cookie | ctx_body | ctx_text | ctx_json | ctx_xml | ctx_delay
  | ctx_fetch

definition restContext :: "(string \<times> context_function) list" where
  "restContext =
     [(''set'', ctx_set),
      (''status'', ctx_status),
      (''cookie'', ctx_cookie),
      (''body'', ctx_body),
      (''text'', ctx_text),
      (''json'', ctx_json),
      (''xml'', ctx_xml),
      (''delay'', ctx_delay),
      (''fetch'', ctx_fetch)]"

subsection \<open>The console\<close>

text \<open>
  One constructor for each console method the file calls. The substitutions of
  \<^verbatim>\<open>console.groupCollapsed\<close> are strings or numbers; the second argument of
  \<^verbatim>\<open>console.log\<close> is the prepared request, the handler summary
  \<^verbatim>\<open>{ mask, resolver }\<close> or the prepared response.
\<close>

datatype js_arg = Str string | Num int

datatype ('q, 's, 'r) log_payload =
  LoggedRequest 'q | HandlerSummary Mask 'r | LoggedResponse 's

datatype ('q, 's, 'r) console_event =
  console_warn string
| console_groupCollapsed string "js_arg list"
| console_log string "('q, 's, 'r) log_payload"
| console_groupEnd

type_synonym ('q, 's, 'r) console = "('q, 's, 'r) console_event list"

subsection \<open>Collaborators\<close>

text \<open>
  The functions the file imports. \<open>matchRequestUrl\<close> takes and returns a state \<open>'w\<close>:
  whatever the matcher reads and writes besides its arguments (the \<^verbatim>\<open>lastIndex\<close> of a
  global regular expression, for one). \<open>getTimestamp\<close> renders the clock reading that
  \<open>log\<close> is given. The argument of \<open>format\<close> is the object literal built in \<open>log\<close>.
\<close>

record url_object =
  uo_protocol :: string
  uo_host :: string
  uo_pathname :: string

record ('w, 'q, 's) collaborators =
  resolveMask :: "Mask \<Rightarrow> Mask"
  matchRequestUrl :: "url \<Rightarrow> Mask \<Rightarrow> 'w \<Rightarrow> match_result \<times> 'w"
  isStringEqual :: "string \<Rightarrow> string \<Rightarrow> bool"
  format :: "url_object \<Rightarrow> string"
  prepareRequest :: "MockedRequest \<Rightarrow> 'q"
  prepareResponse :: "MockedResponse \<Rightarrow> 's"
  getTimestamp :: "nat \<Rightarrow> string"
  getStatusCodeColor :: "int \<Rightarrow> string"

subsection \<open>The handler\<close>

text \<open>
  \<^verbatim>\<open>RequestHandler\<close>, as the object literal of \<^verbatim>\<open>createRestHandler\<close> fills it. The third
  argument of \<open>log\<close> is the handler instance, of which the body reads \<^verbatim>\<open>handler.resolver\<close>
  only: it is passed as that resolver. The fourth is the clock reading.
\<close>

record ('w, 'q, 's, 'r) RequestHandler =
  parse :: "MockedRequest \<Rightarrow> 'w \<Rightarrow> ParsedRestRequest \<times> 'w"
  predicate :: "MockedRequest \<Rightarrow> ParsedRestRequest \<Rightarrow> bool"
  getPublicRequest :: "MockedRequest \<Rightarrow> ParsedRestRequest \<Rightarrow> PublicRequest"
  resolver :: 'r
  defineContext :: "unit \<Rightarrow> (string \<times> context_function) list"
  log :: "MockedRequest \<Rightarrow> MockedResponse \<Rightarrow> 'r \<Rightarrow> nat
            \<Rightarrow> ('q, 's, 'r) console \<Rightarrow> ('q, 's, 'r) console"

text \<open>The text of the warning (lines 96 to 110): the template literal, piece by piece.\<close>

definition warning_text :: "RESTMethods \<Rightarrow> Mask \<Rightarrow> url \<Rightarrow> string list \<Rightarrow> string" where
  \<open>warning_text method' mask' resolvedUrl queryParams =
     ''[MSW] Found a redundant usage of query parameters in the request handler URL for ''
     @ dquote @ method_string method' @ '' '' @ mask_toString mask' @ dquote
     @ ''. Please match against a path instead, and access query parameters in the response resolver function:''
     @ newline @ newline
     @ ''rest.'' @ toLowerCase (method_string method') @ ''('' @ dquote @ pathname resolvedUrl
     @ dquote @ '', (req, res, ctx) => {'' @ newline
     @ ''  const query = req.url.searchParams'' @ newline
     @ join newline
         (map (\<lambda>paramName.
                 ''  const '' @ paramName @ '' = query.get('' @ dquote @ paramName @ dquote @ '')'')
            queryParams)
     @ newline @ ''})''\<close>

text \<open>
  Lines 89 to 111: what the guard at the head of \<open>log\<close> writes. \<open>queryParams\<close> collects
  the name of every pair of \<^verbatim>\<open>resolvedMask.searchParams\<close>, in order.
\<close>

fun redundant_query_warning ::
  "RESTMethods \<Rightarrow> Mask \<Rightarrow> Mask \<Rightarrow> ('q, 's, 'r) console" where
  "redundant_query_warning method' mask' (MaskURL u) =
     (if search u \<noteq> ''''
      then [console_warn (warning_text method' mask' u (map fst (searchParams u)))]
      else [])"
| "redundant_query_warning method' mask' (MaskString s) = []"
| "redundant_query_warning method' mask' (MaskRegExp r) = []"

text \<open>Lines 113 to 120: \<^verbatim>\<open>isRelativeRequest\<close> and \<^verbatim>\<open>publicUrl\<close>.\<close>

definition isRelativeRequest :: "MockedRequest \<Rightarrow> bool" where
  "isRelativeRequest req = startsWith (referrer req) (origin (url req))"

definition publicUrl :: "('w, 'q, 's) collaborators \<Rightarrow> MockedRequest \<Rightarrow> string" where
  "publicUrl c req =
     (if isRelativeRequest req
      then pathname (url req)
      else format c \<lparr>uo_protocol = protocol (url req),
                      uo_host = host (url req),
                      uo_pathname = pathname (url req)\<rparr>)"

text \<open>
  \<^verbatim>\<open>createRestHandler\<close>. Construction computes \<open>resolvedMask\<close> and returns the object
  literal; it makes no call on the console, which it hands back as it got it.

  In \<open>getPublicRequest\<close>, \<^verbatim>\<open>(mask && parsedRequest.match.params) || {}\<close> is evaluated
  operator by operator. The spread \<^verbatim>\<open>...req\<close> is the extension of the request record by
  the new field.
\<close>

definition createRestHandler ::
  "('w, 'q, 's) collaborators \<Rightarrow> RESTMethods \<Rightarrow> Mask \<Rightarrow> 'r \<Rightarrow> ('q, 's, 'r) console
     \<Rightarrow> ('w, 'q, 's, 'r) RequestHandler \<times> ('q, 's, 'r) console" where
  "createRestHandler c method' mask' resolver' console =
     (let resolvedMask = resolveMask c mask' in
      (\<lparr>parse = (\<lambda>req w.
           let (match', w') = matchRequestUrl c (url req) mask' w
           in (\<lparr>match = match'\<rparr>, w')),
        predicate = (\<lambda>req parsedRequest.
           isStringEqual c (method_string method') (req_method req)
           \<and> matches (match parsedRequest)),
        getPublicRequest = (\<lambda>req parsedRequest.
           let params' = js_or (js_and (JsMask mask')
                                  (params_value (params (match parsedRequest))))
                               (JsObject Map.empty)
           in MockedRequest.extend req \<lparr>publicParams = params'\<rparr>),
        resolver = resolver',
        defineContext = (\<lambda>_. restContext),
        log = (\<lambda>req res handler_resolver now out.
           let out1 = out @ redundant_query_warning method' mask' resolvedMask;
               loggedRequest = prepareRequest c req;
               loggedResponse = prepareResponse c res;
               out2 = out1 @ [console_groupCollapsed ''[MSW] %s %s %s (%c%s%c)''
                        [Str (getTimestamp c now),
                         Str (req_method req),
                         Str (publicUrl c req),
                         Str (''color:'' @ getStatusCodeColor c (status res)),
                         Num (status res),
                         Str ''color:inherit'']];
               out3 = out2 @ [console_log ''Request'' (LoggedRequest loggedRequest)];
               out4 = out3 @ [console_log ''Handler:'' (HandlerSummary mask' handler_resolver)];
               out5 = out4 @ [console_log ''Response'' (LoggedResponse loggedResponse)]
           in out5 @ [console_groupEnd])\<rparr>,
       console))"

text \<open>The six entries of \<^verbatim>\<open>rest\<close>.\<close>

definition rest_get where "rest_get c = createRestHandler c GET"
definition rest_post where "rest_post c = createRestHandler c POST"
definition rest_put where "rest_put c = createRestHandler c PUT"
definition rest_delete where "rest_delete c = createRestHandler c DELETE"
definition rest_patch where "rest_patch c = createRestHandler c PATCH"
definition rest_options where "rest_options c = createRestHandler c OPTIONS"

subsection \<open>Calling \<open>getPublicRequest\<close> on objects in a store\<close>

text \<open>
  Requests are objects, passed by reference. The store is the list of the objects
  allocated so far, an address is an index in it. An object is a request as the
  interception layer made it, or a public request (a request with the property
  \<^verbatim>\<open>params\<close>).

  \<open>getPublicRequest_call h a parsedRequest st\<close> is the call
  \<^verbatim>\<open>h.getPublicRequest(req, parsedRequest)\<close> with \<open>req\<close> the object at address \<open>a\<close>: the
  body reads \<open>req\<close>, and its object literal \<^verbatim>\<open>{ ...req, params }\<close> allocates one new
  object, whose address is returned. The spread of a public request copies its
  \<^verbatim>\<open>params\<close> too, and the \<^verbatim>\<open>params\<close> that follows in the literal replaces it. No
  object lives at an address beyond the store: there the call is \<open>None\<close>.
\<close>

datatype stored = IncomingObject MockedRequest | PublicObject PublicRequest

fun request_of :: "stored \<Rightarrow> MockedRequest" where
  "request_of (IncomingObject req) = req"
| "request_of (PublicObject pub) = MockedRequest.truncate pub"

definition getPublicRequest_call ::
  "('w, 'q, 's, 'r) RequestHandler \<Rightarrow> nat \<Rightarrow> ParsedRestRequest \<Rightarrow> stored list
     \<Rightarrow> (nat \<times> stored list) option" where
  "getPublicRequest_call h a parsedRequest st =
     (if a < length st
      then Some (length st,
                 st @ [PublicObject (getPublicRequest h (request_of (st ! a)) parsedRequest)])
      else None)"

subsection \<open>The caller of the protocol\<close>

text \<open>
  Modelled from the spec: the interception layer that drives a handler is not in
  \<^verbatim>\<open>src/rest.ts\<close>. The specification (sections 2, 4.3, 6 and 7) has it call \<open>parse\<close>,
  then \<open>predicate\<close>, and if that is true \<open>getPublicRequest\<close>, then the resolver with
  the public request, a response builder and the context of \<open>defineContext\<close>, then
  \<open>log\<close> after a successful resolution with the handler itself as the third
  argument. An error thrown by the resolver propagates to the caller unmodified,
  with no retry and no recovery. A resolver returns the mocked response or throws:
  \<open>Inl\<close> is the thrown value. The result is \<open>Inr None\<close> when the handler does not
  claim the request.
\<close>

datatype js_error = Error string

type_synonym 'b ResponseResolver =
  "PublicRequest \<Rightarrow> 'b \<Rightarrow> (string \<times> context_function) list \<Rightarrow> js_error + MockedResponse"

definition handleRequest ::
  "('w, 'q, 's, 'b ResponseResolver) RequestHandler \<Rightarrow> 'b \<Rightarrow> MockedRequest \<Rightarrow> nat \<Rightarrow> 'w
     \<Rightarrow> ('q, 's, 'b ResponseResolver) console
     \<Rightarrow> (js_error + MockedResponse option) \<times> 'w \<times> ('q, 's, 'b ResponseResolver) console" where
  "handleRequest h responseBuilder req now w out =
     (let (parsedRequest, w') = parse h req w in
      if predicate h req parsedRequest
      then (case resolver h (getPublicRequest h req parsedRequest) responseBuilder
                   (defineContext h ()) of
              Inl err \<Rightarrow> (Inl err, w', out)
            | Inr res \<Rightarrow> (Inr (Some res), w', log h req res (resolver h) now out))
      else (Inr None, w', out))"

subsection \<open>Observations on the console\<close>

text \<open>The warnings written so far, and whether a resolved mask meets the guard of
  line 90: an instance of \<^verbatim>\<open>URL\<close> whose \<open>search\<close> is not the empty string.\<close>

fun warnings :: "('q, 's, 'r) console \<Rightarrow> string list" where
  "warnings [] = []"
| "warnings (console_warn msg # es) = msg # warnings es"
| "warnings (e # es) = warnings es"

fun url_with_query :: "Mask \<Rightarrow> bool" where
  "url_with_query (MaskURL u) = (search u \<noteq> '''')"
| "url_with_query (MaskString s) = False"
| "url_with_query (MaskRegExp r) = False"

text \<open>The request URL of every log entry: the third substitution of each
  \<^verbatim>\<open>console.groupCollapsed\<close> call.\<close>

fun entry_urls :: "('q, 's, 'r) console \<Rightarrow> js_arg list" where
  "entry_urls [] = []"
| "entry_urls (console_groupCollapsed fmt (t # m # u # rest) # es) = u # entry_urls es"
| "entry_urls (e # es) = entry_urls es"

subsection \<open>Concrete inputs\<close>

text \<open>
  An instance of the collaborators, to run the model on concrete inputs: masks
  resolve to themselves, a string or URL mask matches the requests with its
  pathname (and has no parameter object: \<open>params\<close> is \<^verbatim>\<open>null\<close>), the matcher's state
  counts its calls,
  methods compare in lower case, and \<open>format\<close> joins protocol, host and pathname.
\<close>

definition example_collaborators :: "(nat, string, string) collaborators" where
  "example_collaborators =
     \<lparr>resolveMask = (\<lambda>m. m),
      matchRequestUrl = (\<lambda>u m w.
        (\<lparr>matches = (case m of MaskString s \<Rightarrow> pathname u = s
                               | MaskRegExp r \<Rightarrow> False
                               | MaskURL v \<Rightarrow> pathname u = pathname v),
          params = None\<rparr>, Suc w)),
      isStringEqual = (\<lambda>a b. toLowerCase a = toLowerCase b),
      format = (\<lambda>obj. uo_protocol obj @ ''//'' @ uo_host obj @ uo_pathname obj),
      prepareRequest = (\<lambda>req. req_method req),
      prepareResponse = (\<lambda>res. responseBody res),
      getTimestamp = (\<lambda>now. ''12:00:00''),
      getStatusCodeColor = (\<lambda>code. ''green'')\<rparr>"

text \<open>\<^verbatim>\<open>new URL('https://api.test/search?q=1')\<close>.\<close>

definition search_url :: url where
  "search_url =
     \<lparr>href = ''https://api.test/search?q=1'',
      origin = ''https://api.test'',
      protocol = ''https:'',
      host = ''api.test'',
      pathname = ''/search'',
      search = ''?q=1'',
      searchParams = [(''q'', ''1'')]\<rparr>"

text \<open>A request for that URL from a page of another origin, one from a page of the
  same origin, and a response.\<close>

definition cross_origin_request :: MockedRequest where
  "cross_origin_request =
     \<lparr>url = search_url, req_method = ''GET'', referrer = ''https://app.test/'',
      headers = [], body = ''''\<rparr>"

definition same_origin_request :: MockedRequest where
  "same_origin_request =
     \<lparr>url = search_url, req_method = ''get'', referrer = ''https://api.test/index.html'',
      headers = [(''accept'', ''*/*'')], body = ''ping''\<rparr>"

definition ok_response :: MockedResponse where
  "ok_response = \<lparr>status = 200, responseHeaders = [], responseBody = ''{}''\<rparr>"

text \<open>Two resolvers: one returns \<open>ok_response\<close>, one throws \<^verbatim>\<open>Error("boom")\<close>.\<close>

definition ok_resolver :: "unit ResponseResolver" where
  "ok_resolver req res ctx = Inr ok_response"

definition boom_resolver :: "unit ResponseResolver" where
  "boom_resolver req res ctx = Inl (Error ''boom'')"


text \<open>A second cross-origin request: the same protocol, host and pathname, another
  query string, and an empty referrer.\<close>

definition other_query_request :: MockedRequest where
  "other_query_request =
     \<lparr>url = search_url\<lparr>href := ''https://api.test/search?token=abc'',
                         search := ''?token=abc'',
                         searchParams := [(''token'', ''abc'')]\<rparr>,
      req_method = ''GET'', referrer = '''', headers = [], body = ''''\<rparr>"

text \<open>\<^verbatim>\<open>rest.get(new URL('https://api.test/search?q=1'), resolver)\<close> and
  \<^verbatim>\<open>rest.get('/search', resolver)\<close> with the resolver that throws.\<close>

definition search_handler ::
  "(nat, string, string, unit ResponseResolver) RequestHandler" where
  "search_handler = fst (rest_get example_collaborators (MaskURL search_url) ok_resolver [])"

definition boom_handler ::
  "(nat, string, string, unit ResponseResolver) RequestHandler" where
  "boom_handler = fst (rest_get example_collaborators (MaskString ''/search'') boom_resolver [])"

text \<open>A matcher that is not a function of its arguments: it matches on every other
  call, as a regular expression with the flag \<^verbatim>\<open>g\<close> may.\<close>

definition alternating_collaborators :: "(nat, string, string) collaborators" where
  "alternating_collaborators =
     example_collaborators
       \<lparr>matchRequestUrl := (\<lambda>u m w. (\<lparr>matches = even w, params = None\<rparr>, Suc w))\<rparr>"

section \<open>Properties\<close>

subsection \<open>The fields of a constructed handler\<close>

lemma createRestHandler_console:
  "snd (createRestHandler c m k r out0) = out0"
  by (simp add: createRestHandler_def Let_def)

lemma parse_createRestHandler:
  "parse (fst (createRestHandler c m k r out0)) req w
   = (\<lparr>match = fst (matchRequestUrl c (url req) k w)\<rparr>, snd (matchRequestUrl c (url req) k w))"
  by (simp add: createRestHandler_def Let_def split_beta)

lemma predicate_createRestHandler:
  "predicate (fst (createRestHandler c m k r out0)) req parsed
   = (isStringEqual c (method_string m) (req_method req) \<and> matches (match parsed))"
  by (simp add: createRestHandler_def Let_def)

lemma getPublicRequest_createRestHandler:
  "getPublicRequest (fst (createRestHandler c m k r out0)) req parsed
   = MockedRequest.extend req
       \<lparr>publicParams =
          (if mask_truthy k
           then (case params (match parsed) of
                   None \<Rightarrow> JsObject Map.empty
                 | Some obj \<Rightarrow> JsObject obj)
           else JsObject Map.empty)\<rparr>"
  by (simp add: createRestHandler_def Let_def js_and_def js_or_def split: option.split)

lemma resolver_createRestHandler:
  "resolver (fst (createRestHandler c m k r out0)) = r"
  by (simp add: createRestHandler_def Let_def)

lemma defineContext_createRestHandler:
  "defineContext (fst (createRestHandler c m k r out0)) u = restContext"
  by (simp add: createRestHandler_def Let_def)

lemma log_createRestHandler:
  "log (fst (createRestHandler c m k r out0)) req res hr now out =
     out @ redundant_query_warning m k (resolveMask c k)
     @ [console_groupCollapsed ''[MSW] %s %s %s (%c%s%c)''
          [Str (getTimestamp c now), Str (req_method req), Str (publicUrl c req),
           Str (''color:'' @ getStatusCodeColor c (status res)), Num (status res),
           Str ''color:inherit''],
        console_log ''Request'' (LoggedRequest (prepareRequest c req)),
        console_log ''Handler:'' (HandlerSummary k hr),
        console_log ''Response'' (LoggedResponse (prepareResponse c res)),
        console_groupEnd]"
  by (simp add: createRestHandler_def Let_def)

subsection \<open>Observations distribute over the console\<close>

lemma warnings_append: "warnings (xs @ ys) = warnings xs @ warnings ys"
  by (induction xs rule: warnings.induct) simp_all

lemma entry_urls_append: "entry_urls (xs @ ys) = entry_urls xs @ entry_urls ys"
  by (induction xs rule: entry_urls.induct) simp_all

lemma warnings_redundant_query_warning:
  "length (warnings (redundant_query_warning m k rm :: ('q, 's, 'r) console))
   = (if url_with_query rm then 1 else 0)"
  by (cases rm) simp_all

lemma entry_urls_redundant_query_warning:
  "entry_urls (redundant_query_warning m k rm) = []"
  by (cases rm) simp_all

lemma log_writes: "log (fst (createRestHandler c m k r out0)) req res hr now out \<noteq> out"
  by (simp add: log_createRestHandler)

lemma startsWith_append: "startsWith s p \<longleftrightarrow> (\<exists>t. s = p @ t)"
  by (induction s p rule: startsWith.induct) auto

text \<open>A request with an empty referrer is not relative: the origin of a URL is never
  the empty string.\<close>

lemma empty_referrer_not_relative:
  "origin (url req) \<noteq> [] \<Longrightarrow> referrer req = [] \<Longrightarrow> \<not> isRelativeRequest req"
  by (cases "origin (url req)") (simp_all add: isRelativeRequest_def)

subsection \<open>The redundant-query-parameter warning\<close>

text \<open>
  C1 as stated fails. With the mask \<^verbatim>\<open>new URL('https://api.test/search?q=1')\<close>, which
  resolves to a URL with a query string, construction writes no warning, and two
  logged requests write two.
\<close>

theorem warning_at_construction_counterexample:
  "url_with_query (resolveMask example_collaborators (MaskURL search_url))
   \<and> warnings (snd (rest_get example_collaborators (MaskURL search_url) ok_resolver [])) = []
   \<and> length (warnings
        (log search_handler cross_origin_request ok_response ok_resolver 1
          (log search_handler same_origin_request ok_response ok_resolver 0 []))) = 2"
  by (simp add: search_handler_def rest_get_def log_createRestHandler warnings_append
      createRestHandler_console example_collaborators_def search_url_def)

text \<open>
  C1, amended: construction leaves the console as it was, and every call of \<open>log\<close>
  writes exactly one warning when the resolved mask is a URL with a non-empty query
  string and none otherwise (in particular none when it is a string or a regular
  expression): the warning comes once per logged request.
\<close>

theorem warning_once_per_log_call:
  "snd (createRestHandler c m k r out0) = out0
   \<and> length (warnings (log (fst (createRestHandler c m k r out0)) req res hr now out))
       = length (warnings out) + (if url_with_query (resolveMask c k) then 1 else 0)"
  by (simp add: log_createRestHandler warnings_append warnings_redundant_query_warning
        createRestHandler_console)

text \<open>C1, amended, on the handler for \<^verbatim>\<open>https://api.test/search?q=1\<close> after one warning,
  and on a handler for the string \<^verbatim>\<open>/search\<close>.\<close>

theorem warning_once_per_log_call_witness:
  "length (warnings (log search_handler cross_origin_request ok_response ok_resolver 0
      [console_warn ''earlier''])) = 2
   \<and> length (warnings (log boom_handler cross_origin_request ok_response boom_resolver 0
      [console_warn ''earlier''])) = 1"
  using warning_once_per_log_call [of example_collaborators GET "MaskURL search_url" ok_resolver
      "[]" cross_origin_request ok_response ok_resolver 0 "[console_warn ''earlier'']"]
    warning_once_per_log_call [of example_collaborators GET "MaskString ''/search''"
      boom_resolver "[]" cross_origin_request ok_response boom_resolver 0
      "[console_warn ''earlier'']"]
  by (simp add: search_handler_def boom_handler_def rest_get_def example_collaborators_def
        search_url_def)

subsection \<open>Predicate and projection\<close>



text \<open>
  C3 as stated fails. The GET handler for the mask \<^verbatim>\<open>/search\<close>, a truthy mask, claims
  the request for \<^verbatim>\<open>/search\<close>, whose match has no parameter object. The \<^verbatim>\<open>params\<close> of
  the public request is then the empty object, not the \<^verbatim>\<open>params\<close> of the parsed match.
\<close>

theorem getPublicRequest_params_null_counterexample:
  "mask_truthy (MaskString ''/search'')
   \<and> predicate boom_handler cross_origin_request
        (fst (parse boom_handler cross_origin_request 0))
   \<and> params (match (fst (parse boom_handler cross_origin_request 0))) = None
   \<and> publicParams (getPublicRequest boom_handler cross_origin_request
        (fst (parse boom_handler cross_origin_request 0))) = JsObject Map.empty
   \<and> publicParams (getPublicRequest boom_handler cross_origin_request
        (fst (parse boom_handler cross_origin_request 0)))
       \<noteq> params_value (params (match (fst (parse boom_handler cross_origin_request 0))))"
  by (simp add: boom_handler_def rest_get_def parse_createRestHandler
        predicate_createRestHandler getPublicRequest_createRestHandler
        MockedRequest.extend_def example_collaborators_def cross_origin_request_def
        search_url_def toLowerCase_def)

text \<open>
  C3, amended: \<open>getPublicRequest\<close> returns the request's own fields unchanged, with
  a \<^verbatim>\<open>params\<close> that is the parameter object of the parsed match when the mask is
  truthy and the match has one, and the empty object when the mask is falsy or the
  match has none. In every case \<^verbatim>\<open>params\<close> is an object: never a mask, \<^verbatim>\<open>null\<close> or
  \<^verbatim>\<open>undefined\<close>.
\<close>

theorem getPublicRequest_params:
  "MockedRequest.truncate (getPublicRequest (fst (createRestHandler c m k r out0)) req parsed)
     = req
   \<and> publicParams (getPublicRequest (fst (createRestHandler c m k r out0)) req parsed)
       = (if mask_truthy k
          then (case params (match parsed) of
                  None \<Rightarrow> JsObject Map.empty
                | Some obj \<Rightarrow> JsObject obj)
          else JsObject Map.empty)
   \<and> is_JsObject
        (publicParams (getPublicRequest (fst (createRestHandler c m k r out0)) req parsed))"
  by (simp add: getPublicRequest_createRestHandler MockedRequest.truncate_def
        MockedRequest.extend_def split: option.split)

text \<open>C3, amended, on a match that extracted \<^verbatim>\<open>{ id: "42" }\<close>: kept under the mask
  \<^verbatim>\<open>/search\<close>, dropped under the empty string; and on a match without parameter
  object under the mask \<^verbatim>\<open>/search\<close>.\<close>

theorem getPublicRequest_params_witness:
  "publicParams (getPublicRequest boom_handler cross_origin_request
       \<lparr>match = \<lparr>matches = True, params = Some [''id'' \<mapsto> ''42'']\<rparr>\<rparr>)
     = JsObject [''id'' \<mapsto> ''42'']
   \<and> publicParams (getPublicRequest
         (fst (rest_get example_collaborators (MaskString '''') boom_resolver []))
         cross_origin_request
         \<lparr>match = \<lparr>matches = True, params = Some [''id'' \<mapsto> ''42'']\<rparr>\<rparr>)
     = JsObject Map.empty
   \<and> publicParams (getPublicRequest boom_handler cross_origin_request
       \<lparr>match = \<lparr>matches = True, params = None\<rparr>\<rparr>)
     = JsObject Map.empty"
  using getPublicRequest_params [of example_collaborators GET "MaskString ''/search''"
      boom_resolver "[]" cross_origin_request
      "\<lparr>match = \<lparr>matches = True, params = Some [''id'' \<mapsto> ''42'']\<rparr>\<rparr>"]
    getPublicRequest_params [of example_collaborators GET "MaskString ''''"
      boom_resolver "[]" cross_origin_request
      "\<lparr>match = \<lparr>matches = True, params = Some [''id'' \<mapsto> ''42'']\<rparr>\<rparr>"]
    getPublicRequest_params [of example_collaborators GET "MaskString ''/search''"
      boom_resolver "[]" cross_origin_request
      "\<lparr>match = \<lparr>matches = True, params = None\<rparr>\<rparr>"]
  by (simp add: boom_handler_def rest_get_def)

subsection \<open>The resolver\<close>

text \<open>
  C4: the descriptor's \<open>resolver\<close> is the resolver it was given, and when that
  resolver throws on the public request of a request the handler claims, the caller
  of the protocol gets the thrown value itself and the console is left as it was:
  \<open>log\<close>, which always writes to the console, has not run.
\<close>

theorem resolver_error_propagates:
  assumes "predicate (fst (createRestHandler c m k r out0)) req
             (fst (parse (fst (createRestHandler c m k r out0)) req w))"
    and "r (getPublicRequest (fst (createRestHandler c m k r out0)) req
              (fst (parse (fst (createRestHandler c m k r out0)) req w))) rb
            (defineContext (fst (createRestHandler c m k r out0)) ()) = Inl e"
  shows "resolver (fst (createRestHandler c m k r out0)) = r
     \<and> handleRequest (fst (createRestHandler c m k r out0)) rb req now w out
        = (Inl e, snd (parse (fst (createRestHandler c m k r out0)) req w), out)"
proof -
  let ?h = "fst (createRestHandler c m k r out0)"
  have res: "resolver ?h = r"
    by (rule resolver_createRestHandler)
  obtain p w' where pw: "parse ?h req w = (p, w')"
    by (cases "parse ?h req w")
  from assms pw res show ?thesis
    by (simp add: handleRequest_def)
qed

text \<open>C4 on the resolver that throws \<^verbatim>\<open>Error("boom")\<close>, for a matched GET request.\<close>

theorem resolver_error_propagates_witness:
  "resolver boom_handler = boom_resolver
   \<and> handleRequest boom_handler () cross_origin_request 7 0 [] = (Inl (Error ''boom''), 1, [])"
proof -
  have p: "predicate boom_handler cross_origin_request
             (fst (parse boom_handler cross_origin_request 0))"
    by (simp add: boom_handler_def rest_get_def parse_createRestHandler
          predicate_createRestHandler example_collaborators_def cross_origin_request_def
          search_url_def toLowerCase_def)
  have t: "boom_resolver (getPublicRequest boom_handler cross_origin_request
              (fst (parse boom_handler cross_origin_request 0))) ()
            (defineContext boom_handler ()) = Inl (Error ''boom'')"
    by (simp add: boom_resolver_def)
  have s: "snd (parse boom_handler cross_origin_request 0) = 1"
    by (simp add: boom_handler_def rest_get_def parse_createRestHandler
          example_collaborators_def)
  from resolver_error_propagates [of example_collaborators GET "MaskString ''/search''"
      boom_resolver "[]" cross_origin_request 0 "()" "Error ''boom''" 7 "[]"] p t s
  show ?thesis
    by (simp add: boom_handler_def rest_get_def)
qed

text \<open>By contrast, when the resolver returns, the same caller runs \<open>log\<close>.\<close>

lemma handleRequest_logs_after_resolution:
  "handleRequest (fst (rest_get example_collaborators (MaskString ''/search'') ok_resolver []))
     () cross_origin_request 7 0 []
   = (Inr (Some ok_response), 1,
      [console_groupCollapsed ''[MSW] %s %s %s (%c%s%c)''
         [Str ''12:00:00'', Str ''GET'', Str ''https://api.test/search'', Str ''color:green'',
          Num 200, Str ''color:inherit''],
       console_log ''Request'' (LoggedRequest ''GET''),
       console_log ''Handler:'' (HandlerSummary (MaskString ''/search'') ok_resolver),
       console_log ''Response'' (LoggedResponse ''{}''),
       console_groupEnd])"
  by (simp add: handleRequest_def rest_get_def parse_createRestHandler
        predicate_createRestHandler resolver_createRestHandler log_createRestHandler
        example_collaborators_def cross_origin_request_def search_url_def toLowerCase_def
        ok_resolver_def ok_response_def publicUrl_def isRelativeRequest_def)

subsection \<open>The request URL of a log entry\<close>

text \<open>
  C5: the log entry of a request shows the pathname of the request URL when the
  request's referrer starts with the origin of the request URL, and otherwise the URL
  that \<open>format\<close> builds from the request URL.
\<close>

theorem log_entry_url:
  "entry_urls (log (fst (createRestHandler c m k r out0)) req res hr now out)
   = entry_urls out
     @ [Str (if startsWith (referrer req) (origin (url req))
             then pathname (url req)
             else format c \<lparr>uo_protocol = protocol (url req),
                             uo_host = host (url req),
                             uo_pathname = pathname (url req)\<rparr>)]"
  by (simp add: log_createRestHandler entry_urls_append entry_urls_redundant_query_warning
        publicUrl_def isRelativeRequest_def)

text \<open>C5 on a request from a page of \<^verbatim>\<open>https://api.test\<close> and on one from a page of
  \<^verbatim>\<open>https://app.test\<close>.\<close>

theorem log_entry_url_witness:
  "entry_urls (log search_handler same_origin_request ok_response ok_resolver 0 [])
     = [Str ''/search'']
   \<and> entry_urls (log search_handler cross_origin_request ok_response ok_resolver 0 [])
     = [Str ''https://api.test/search'']"
  using log_entry_url [of example_collaborators GET "MaskURL search_url" ok_resolver "[]"
      same_origin_request ok_response ok_resolver 0 "[]"]
    log_entry_url [of example_collaborators GET "MaskURL search_url" ok_resolver "[]"
      cross_origin_request ok_response ok_resolver 0 "[]"]
  by (simp add: search_handler_def rest_get_def example_collaborators_def
        same_origin_request_def cross_origin_request_def search_url_def)

text \<open>
  C10: for a request whose referrer does not start with the origin of its URL, the
  logged URL is what \<open>format\<close> makes of the protocol, the host and the pathname alone,
  so any other such request with the same three, whatever its query string, is
  logged under the same URL.
\<close>

theorem cross_origin_url_without_query:
  assumes "\<not> startsWith (referrer req) (origin (url req))"
    and "\<not> startsWith (referrer req') (origin (url req'))"
    and "protocol (url req') = protocol (url req)"
    and "host (url req') = host (url req)"
    and "pathname (url req') = pathname (url req)"
  shows "entry_urls (log (fst (createRestHandler c m k r out0)) req res hr now [])
           = [Str (format c \<lparr>uo_protocol = protocol (url req),
                              uo_host = host (url req),
                              uo_pathname = pathname (url req)\<rparr>)]
       \<and> entry_urls (log (fst (createRestHandler c m k r out0)) req' res' hr' now' [])
           = entry_urls (log (fst (createRestHandler c m k r out0)) req res hr now [])"
  using assms
  by (simp add: log_createRestHandler entry_urls_append entry_urls_redundant_query_warning
        publicUrl_def isRelativeRequest_def)

text \<open>C10 on two requests for \<^verbatim>\<open>https://api.test/search\<close>, one with the query
  \<^verbatim>\<open>?q=1\<close> and one with \<^verbatim>\<open>?token=abc\<close> and an empty referrer.\<close>

theorem cross_origin_url_without_query_witness:
  "search (url other_query_request) \<noteq> search (url cross_origin_request)
   \<and> entry_urls (log search_handler cross_origin_request ok_response ok_resolver 0 [])
       = [Str ''https://api.test/search'']
   \<and> entry_urls (log search_handler other_query_request ok_response ok_resolver 1 [])
       = entry_urls (log search_handler cross_origin_request ok_response ok_resolver 0 [])"
proof -
  have a: "\<not> startsWith (referrer cross_origin_request) (origin (url cross_origin_request))"
    by (simp add: cross_origin_request_def search_url_def)
  have b: "\<not> startsWith (referrer other_query_request) (origin (url other_query_request))"
    by (simp add: other_query_request_def search_url_def)
  have c: "protocol (url other_query_request) = protocol (url cross_origin_request)"
    "host (url other_query_request) = host (url cross_origin_request)"
    "pathname (url other_query_request) = pathname (url cross_origin_request)"
    by (simp_all add: other_query_request_def cross_origin_request_def)
  have d: "search (url other_query_request) \<noteq> search (url cross_origin_request)"
    by (simp add: other_query_request_def cross_origin_request_def search_url_def)
  from cross_origin_url_without_query [OF a b c, of example_collaborators GET
      "MaskURL search_url" ok_resolver "[]" ok_response ok_resolver 0 ok_response ok_resolver 1] d
  show ?thesis
    by (simp add: search_handler_def rest_get_def example_collaborators_def
          cross_origin_request_def search_url_def)
qed

subsection \<open>The context toolkit\<close>

text \<open>
  C6: \<open>defineContext\<close> of a descriptor made by any of the six factories returns
  \<open>restContext\<close>, whose members are \<^verbatim>\<open>set\<close>, \<^verbatim>\<open>status\<close>, \<^verbatim>\<open>cookie\<close>, \<^verbatim>\<open>body\<close>, \<^verbatim>\<open>text\<close>, \<^verbatim>\<open>json\<close>,
  \<^verbatim>\<open>xml\<close>, \<^verbatim>\<open>delay\<close> and \<^verbatim>\<open>fetch\<close>, and no other.
\<close>

theorem defineContext_restContext:
  "defineContext (fst (rest_get c k r out0)) () = restContext
   \<and> defineContext (fst (rest_post c k r out0)) () = restContext
   \<and> defineContext (fst (rest_put c k r out0)) () = restContext
   \<and> defineContext (fst (rest_patch c k r out0)) () = restContext
   \<and> defineContext (fst (rest_delete c k r out0)) () = restContext
   \<and> defineContext (fst (rest_options c k r out0)) () = restContext
   \<and> map fst restContext
       = [''set'', ''status'', ''cookie'', ''body'', ''text'', ''json'', ''xml'', ''delay'',
          ''fetch'']"
  by (simp add: rest_get_def rest_post_def rest_put_def rest_patch_def rest_delete_def
        rest_options_def defineContext_createRestHandler)
     (simp add: restContext_def)

subsection \<open>Parsing\<close>

text \<open>
  C7: if the result of the matcher is a function of its arguments (it does not depend
  on the state the matcher runs in), then two calls of \<open>parse\<close> in a row on the same
  request give matches with the same \<open>matches\<close> flag and the same parameters.
\<close>

theorem parse_twice_same_match:
  assumes "\<forall>u k w1 w2. fst (matchRequestUrl c u k w1) = fst (matchRequestUrl c u k w2)"
  shows "matches (match (fst (parse (fst (createRestHandler c m k r out0)) req
                    (snd (parse (fst (createRestHandler c m k r out0)) req w)))))
         = matches (match (fst (parse (fst (createRestHandler c m k r out0)) req w)))
       \<and> params (match (fst (parse (fst (createRestHandler c m k r out0)) req
                    (snd (parse (fst (createRestHandler c m k r out0)) req w)))))
         = params (match (fst (parse (fst (createRestHandler c m k r out0)) req w)))"
proof -
  have "fst (matchRequestUrl c (url req) k (snd (matchRequestUrl c (url req) k w)))
        = fst (matchRequestUrl c (url req) k w)"
    using assms by blast
  then show ?thesis
    by (simp add: parse_createRestHandler)
qed

text \<open>C7 on the example matcher, whose state counts the calls and whose result does
  not read it.\<close>

theorem parse_twice_same_match_witness:
  "matches (match (fst (parse search_handler cross_origin_request
                    (snd (parse search_handler cross_origin_request 0)))))
   \<and> matches (match (fst (parse search_handler cross_origin_request 0)))
   \<and> params (match (fst (parse search_handler cross_origin_request
                    (snd (parse search_handler cross_origin_request 0)))))
       = params (match (fst (parse search_handler cross_origin_request 0)))"
proof -
  have pure: "\<forall>u k w1 w2. fst (matchRequestUrl example_collaborators u k w1)
                = fst (matchRequestUrl example_collaborators u k w2)"
    by (simp add: example_collaborators_def)
  have first: "matches (match (fst (parse search_handler cross_origin_request 0)))"
    by (simp add: search_handler_def rest_get_def parse_createRestHandler
          example_collaborators_def cross_origin_request_def)
  from parse_twice_same_match [OF pure, of GET "MaskURL search_url" ok_resolver "[]"
      cross_origin_request 0] first
  show ?thesis
    by (simp add: search_handler_def rest_get_def)
qed

text \<open>The hypothesis is needed: with a matcher that reads its state, the second
  \<open>parse\<close> of the same request differs from the first.\<close>

lemma parse_twice_alternating_matcher:
  "matches (match (fst (parse
      (fst (rest_get alternating_collaborators (MaskString ''/search'') ok_resolver []))
      cross_origin_request 0)))
   \<and> \<not> matches (match (fst (parse
      (fst (rest_get alternating_collaborators (MaskString ''/search'') ok_resolver []))
      cross_origin_request
      (snd (parse
        (fst (rest_get alternating_collaborators (MaskString ''/search'') ok_resolver []))
        cross_origin_request 0)))))"
  by (simp add: rest_get_def parse_createRestHandler alternating_collaborators_def)

text \<open>
  C9: two requests with the same \<open>url\<close> get the same result of \<open>parse\<close> from the same
  handler (in the same matcher state), whatever their method, headers, body and
  referrer.
\<close>

theorem parse_depends_on_url_only:
  assumes "url req1 = url req2"
  shows "parse (fst (createRestHandler c m k r out0)) req1 w
       = parse (fst (createRestHandler c m k r out0)) req2 w"
  using assms by (simp add: parse_createRestHandler)

text \<open>C9 on two requests for the same URL that differ in method, referrer, headers
  and body.\<close>

theorem parse_depends_on_url_only_witness:
  "cross_origin_request \<noteq> same_origin_request
   \<and> parse search_handler cross_origin_request 0 = parse search_handler same_origin_request 0"
proof -
  have u: "url cross_origin_request = url same_origin_request"
    by (simp add: cross_origin_request_def same_origin_request_def)
  have d: "cross_origin_request \<noteq> same_origin_request"
    by (simp add: cross_origin_request_def same_origin_request_def)
  from parse_depends_on_url_only [OF u, of example_collaborators GET "MaskURL search_url"
      ok_resolver "[]" 0] d
  show ?thesis
    by (simp add: search_handler_def rest_get_def)
qed

subsection \<open>The original request is not written\<close>

text \<open>
  C8: a call of \<open>getPublicRequest\<close> on the request at address \<open>a\<close> returns the
  address of a new object, the public request, and leaves every object that was in
  the store as it was: the original request has the fields it had and has gained no
  \<^verbatim>\<open>params\<close>.
\<close>

theorem getPublicRequest_call_frame:
  assumes "a < length st"
  shows "(case getPublicRequest_call (fst (createRestHandler c m k r out0)) a parsed st of
            None \<Rightarrow> False
          | Some (a', st') \<Rightarrow>
              a' = length st \<and> a' \<noteq> a
              \<and> take (length st) st' = st
              \<and> st' ! a = st ! a
              \<and> st' ! a' = PublicObject (MockedRequest.extend (request_of (st ! a))
                   \<lparr>publicParams =
                      (if mask_truthy k
                       then (case params (match parsed) of
                               None \<Rightarrow> JsObject Map.empty
                             | Some obj \<Rightarrow> JsObject obj)
                       else JsObject Map.empty)\<rparr>))"
  using assms
  by (simp add: getPublicRequest_call_def getPublicRequest_createRestHandler nth_append)

text \<open>C8 on a store that holds one incoming request.\<close>

theorem getPublicRequest_call_frame_witness:
  "getPublicRequest_call boom_handler 0
      \<lparr>match = \<lparr>matches = True, params = Some [''id'' \<mapsto> ''42'']\<rparr>\<rparr>
      [IncomingObject cross_origin_request]
   = Some (1, [IncomingObject cross_origin_request,
               PublicObject (MockedRequest.extend cross_origin_request
                 \<lparr>publicParams = JsObject [''id'' \<mapsto> ''42'']\<rparr>)])"
  using getPublicRequest_call_frame [where a = 0 and st = "[IncomingObject cross_origin_request]"
      and c = example_collaborators and m = GET and k = "MaskString ''/search''"
      and r = boom_resolver and ?out0.0 = "[]"
      and parsed = "\<lparr>match = \<lparr>matches = True, params = Some [''id'' \<mapsto> ''42'']\<rparr>\<rparr>"]
  by (simp add: boom_handler_def rest_get_def getPublicRequest_call_def
        getPublicRequest_createRestHandler)

end
